theory Spec2Isabelle
  imports Complex_Main "HOL-Library.AList"
begin

section \<open>JavaScript values\<close>

text \<open>
  The values the uploader handles: the primitives, plain objects and \<open>Error\<close> objects.
  An object is the list of its own enumerable properties, in enumeration order, together
  with the enumerable properties it inherits through its prototype chain, which ends in
  \<open>Object.prototype\<close>. Numbers are restricted to integers. An \<open>Error\<close> object carries its
  message and the own enumerable properties that were added to it. No value of the model
  is callable.
\<close>

datatype jsval =
    JUndefined
  | JNull
  | JBool bool
  | JNum int
  | JStr string
  | JObj "(string \<times> jsval) list" "(string \<times> jsval) list"
  | JError string "(string \<times> jsval) list"

type_synonym props = "(string \<times> jsval) list"

datatype exn = TypeError

text \<open>Truthiness, as tested by \<open>if (v)\<close>, \<open>!v\<close> and \<open>v ? a : b\<close>.\<close>

fun truthy :: "jsval \<Rightarrow> bool" where
  "truthy JUndefined = False"
| "truthy JNull = False"
| "truthy (JBool b) = b"
| "truthy (JNum n) = (n \<noteq> 0)"
| "truthy (JStr s) = (s \<noteq> [])"
| "truthy (JObj own inh) = True"
| "truthy (JError m own) = True"

text \<open>\<open>v !== null && typeof v === 'object'\<close>\<close>

fun isObject :: "jsval \<Rightarrow> bool" where
  "isObject (JObj own inh) = True"
| "isObject (JError m own) = True"
| "isObject v = False"

text \<open>Decimal numerals: the index keys of a string.\<close>

function decimal :: "nat \<Rightarrow> string" where
  "decimal n = (if n < 10 then [char_of (48 + n)] else decimal (n div 10) @ [char_of (48 + n mod 10)])"
  by pat_completeness auto
termination
  by (relation "measure (\<lambda>n. n)") auto

declare decimal.simps [simp del]

text \<open>
  The own enumerable properties of a value, in \<open>for ... in\<close> order, and the enumerable
  properties it inherits. A string has its characters under the index keys; the other
  primitives have none.
\<close>

fun own_props :: "jsval \<Rightarrow> props" where
  "own_props (JObj own inh) = own"
| "own_props (JError m own) = own"
| "own_props (JStr s) = map (\<lambda>i. (decimal i, JStr [s ! i])) [0..<length s]"
| "own_props v = []"

fun inherited_props :: "jsval \<Rightarrow> props" where
  "inherited_props (JObj own inh) = inh"
| "inherited_props v = []"

definition own_keys :: "jsval \<Rightarrow> string list" where
  "own_keys v = map fst (own_props v)"

text \<open>The keys \<open>for (const prop in v)\<close> visits: the own ones, then the inherited ones
  that no own property shadows.\<close>

definition for_in_keys :: "jsval \<Rightarrow> string list" where
  "for_in_keys v = own_keys v @ filter (\<lambda>k. k \<notin> set (own_keys v)) (map fst (inherited_props v))"

text \<open>The builtin \<open>Object.prototype.hasOwnProperty\<close>, applied to \<open>v\<close>.\<close>

definition hasOwnProperty :: "jsval \<Rightarrow> string \<Rightarrow> bool" where
  "hasOwnProperty v prop = (prop \<in> set (own_keys v))"

text \<open>
  The method call \<open>v.hasOwnProperty(prop)\<close>, as the program writes it: the property
  \<open>hasOwnProperty\<close> is looked up on \<open>v\<close> itself. On \<open>null\<close> and \<open>undefined\<close> the lookup
  throws. An own or inherited property of that name shadows the builtin, and calling
  its value, which is no function, throws a \<open>TypeError\<close>. Otherwise the builtin runs.
\<close>

definition shadows_hasOwnProperty :: "jsval \<Rightarrow> bool" where
  "shadows_hasOwnProperty v =
     (''hasOwnProperty'' \<in> set (own_keys v) \<or>
      ''hasOwnProperty'' \<in> set (map fst (inherited_props v)))"

definition call_hasOwnProperty :: "jsval \<Rightarrow> string \<Rightarrow> exn + bool" where
  "call_hasOwnProperty v prop =
     (if v = JNull \<or> v = JUndefined then Inl TypeError
      else if shadows_hasOwnProperty v then Inl TypeError
      else Inr (hasOwnProperty v prop))"

text \<open>
  Reading \<open>v[k]\<close> on a value other than \<open>null\<close> and \<open>undefined\<close>: the own property, else
  the inherited one, else \<open>undefined\<close>. (The program reads data properties only:
  \<open>endpoint\<close>, \<open>region\<close>, \<open>bucket\<close>, \<open>errorThrown\<close> and the keys of a \<open>for ... in\<close>.)
\<close>

definition js_get :: "jsval \<Rightarrow> string \<Rightarrow> jsval" where
  "js_get v k =
     (case map_of (own_props v) k of
        Some x \<Rightarrow> x
      | None \<Rightarrow> (case map_of (inherited_props v) k of Some x \<Rightarrow> x | None \<Rightarrow> JUndefined))"

text \<open>
  Writing \<open>v[k] = x\<close> on an object: an existing own property keeps its place, a new one
  comes last. The program writes on objects only (\<open>didError\<close> under its \<open>isObject\<close>
  test, \<open>sign\<close> after the test made explicit there).
\<close>

fun js_set :: "jsval \<Rightarrow> string \<Rightarrow> jsval \<Rightarrow> jsval" where
  "js_set (JObj own inh) k x = JObj (AList.update k x own) inh"
| "js_set (JError m own) k x = JError m (AList.update k x own)"
| "js_set v k x = v"

text \<open>\<open>delete v[k]\<close> removes an own property only.\<close>

fun js_delete :: "jsval \<Rightarrow> string \<Rightarrow> jsval" where
  "js_delete (JObj own inh) k = JObj (AList.delete k own) inh"
| "js_delete (JError m own) k = JError m (AList.delete k own)"
| "js_delete v k = v"

text \<open>\<open>new Error(message)\<close>\<close>

definition new_Error :: "string \<Rightarrow> jsval" where
  "new_Error message = JError message []"

text \<open>
  The string conversion of a template literal, for plain data (integers of fewer than
  22 digits, objects that keep the \<open>toString\<close> of their prototype). The uploader's
  functions take the conversion as a parameter; this is the one used on concrete inputs.
\<close>

fun ToString :: "jsval \<Rightarrow> string" where
  "ToString JUndefined = ''undefined''"
| "ToString JNull = ''null''"
| "ToString (JBool b) = (if b then ''true'' else ''false'')"
| "ToString (JNum n) = (if n < 0 then CHR ''-'' # decimal (nat (- n)) else decimal (nat n))"
| "ToString (JStr s) = s"
| "ToString (JObj own inh) = ''[object Object]''"
| "ToString (JError m own) = (if m = [] then ''Error'' else ''Error: '' @ m)"

section \<open>The uploader's configuration and state\<close>

text \<open>A file handle: \<open>name\<close>, \<open>type\<close> and \<open>size\<close> of a \<open>File\<close>.\<close>

record file_handle =
  file_name :: string
  file_type :: string
  file_size :: nat

text \<open>The \<open>files\<close> argument, by its constructor.\<close>

datatype files = FileList "file_handle list" | Array "file_handle list" | OneFile file_handle

text \<open>A \<open>FormData\<close>: the appended entries, in order.\<close>

datatype part = FieldPart jsval | FilePart file_handle

type_synonym formdata = "(string \<times> part) list"

text \<open>What is handed to \<open>xhr.send\<close>: a \<open>FormData\<close>, a value as it is, or the string
  \<open>JSON.stringify(v)\<close> of a value.\<close>

datatype body = FormBody formdata | ValueBody jsval | JSONBody jsval

text \<open>
  The configured properties (\<open>upload_method\<close> is the property \<open>method\<close>).
  \<open>paramNamespace\<close> is \<open>null\<close> (\<open>None\<close>) or a string;
  \<open>ajaxSettings.headers\<close> and \<open>signingAjaxSettings.headers\<close> are \<open>undefined\<close> (\<open>None\<close>)
  unless configured: the classes declare no default for them.
\<close>

record config =
  url :: jsval
  upload_method :: string
  paramNamespace :: "string option"
  paramName :: string
  ajaxSettings_headers :: "props option"
  signingUrl :: jsval
  signingMethod :: string
  signingAjaxSettings_headers :: "props option"

text \<open>The event object of an upload-progress event.\<close>

datatype jsnumber = NaN | Infinity | Finite real

record progress_event =
  loaded :: nat
  total :: nat
  percent :: "jsnumber option"

text \<open>Everything the uploader does to the outside, in order.\<close>

datatype effect =
    Set_isUploading bool
  | Set_isSigning bool
  | Trigger string "jsval list"
  | TriggerProgress progress_event
  | XhrOpen nat string jsval
  | XhrSetRequestHeader nat string jsval
  | XhrAddProgressListener nat
  | XhrSend nat body
  | XhrAbort nat

text \<open>
  The uploader instance: its two flags, the one-shot \<open>isAborting\<close> listeners that
  \<open>ajaxPromise\<close> registered (each aborts the transport it names), the number of
  transports created so far, and the effects so far.
\<close>

record uploader =
  isUploading :: bool
  isSigning :: bool
  aborting_once :: "nat list"
  xhr_count :: nat
  trace :: "effect list"

definition emit :: "effect \<Rightarrow> uploader \<Rightarrow> uploader" where
  "emit e st = st\<lparr>trace := trace st @ [e]\<rparr>"

definition set_isUploading :: "bool \<Rightarrow> uploader \<Rightarrow> uploader" where
  "set_isUploading b st = emit (Set_isUploading b) (st\<lparr>isUploading := b\<rparr>)"

definition set_isSigning :: "bool \<Rightarrow> uploader \<Rightarrow> uploader" where
  "set_isSigning b st = emit (Set_isSigning b) (st\<lparr>isSigning := b\<rparr>)"

text \<open>
  \<open>this.trigger(name, ...args)\<close>: the application's listeners see the event; the
  listeners registered with \<open>this.one('isAborting', ...)\<close> run on \<open>isAborting\<close>, the
  last registered first, each once, and are removed.
\<close>

definition trigger :: "string \<Rightarrow> jsval list \<Rightarrow> uploader \<Rightarrow> uploader" where
  "trigger name args st =
     (let st1 = emit (Trigger name args) st in
      if name = ''isAborting''
      then st1\<lparr>aborting_once := [],
                trace := trace st1 @ map XhrAbort (rev (aborting_once st1))\<rparr>
      else st1)"

definition new_XMLHttpRequest :: "uploader \<Rightarrow> nat \<times> uploader" where
  "new_XMLHttpRequest st = (xhr_count st, st\<lparr>xhr_count := Suc (xhr_count st)\<rparr>)"


section \<open>Uploader\<close>

text \<open>The default parameter \<open>extra = {}\<close>: \<open>undefined\<close> is replaced by a new empty object.\<close>

definition default_extra :: "jsval \<Rightarrow> jsval" where
  "default_extra extra = (case extra of JUndefined \<Rightarrow> JObj [] [] | _ \<Rightarrow> extra)"

text \<open>\<open>toNamespacedParam (name)\<close>\<close>

definition toNamespacedParam :: "config \<Rightarrow> string \<Rightarrow> string" where
  "toNamespacedParam c name =
     (case paramNamespace c of
        None \<Rightarrow> name
      | Some ns \<Rightarrow> if ns \<noteq> [] then ns @ ''['' @ name @ '']'' else name)"

text \<open>
  \<open>createFormData (files, extra)\<close>. The first loop is
  \<open>for (const prop in extra) if (extra.hasOwnProperty(prop)) formData.append(...)\<close>, the
  second \<open>for (let i = 0; i < files.length; i++) formData.append(paramKey, files[i])\<close>.
  An exception of the call \<open>extra.hasOwnProperty(prop)\<close> ends the function.
\<close>

fun append_extra :: "config \<Rightarrow> jsval \<Rightarrow> string list \<Rightarrow> formdata \<Rightarrow> exn + formdata" where
  "append_extra c extra [] formData = Inr formData"
| "append_extra c extra (prop # rest) formData =
     (case call_hasOwnProperty extra prop of
        Inl thrown \<Rightarrow> Inl thrown
      | Inr own \<Rightarrow>
          append_extra c extra rest
            (if own
             then formData @ [(toNamespacedParam c prop, FieldPart (js_get extra prop))]
             else formData))"

function append_files :: "string \<Rightarrow> file_handle list \<Rightarrow> nat \<Rightarrow> formdata \<Rightarrow> formdata" where
  "append_files paramKey fs i formData =
     (if i < length fs
      then append_files paramKey fs (Suc i) (formData @ [(paramKey, FilePart (fs ! i))])
      else formData)"
  by pat_completeness auto
termination
  by (relation "measure (\<lambda>(paramKey, fs, i, formData). length fs - i)") auto

declare append_files.simps [simp del]

definition createFormData :: "config \<Rightarrow> files \<Rightarrow> jsval \<Rightarrow> exn + formdata" where
  "createFormData c files extra_arg =
     (let extra = default_extra extra_arg in
      case append_extra c extra (for_in_keys extra) [] of
        Inl thrown \<Rightarrow> Inl thrown
      | Inr formData \<Rightarrow>
          Inr (case files of
                 FileList fs \<Rightarrow>
                   append_files (toNamespacedParam c (paramName c) @ ''[]'') fs 0 formData
               | Array fs \<Rightarrow>
                   append_files (toNamespacedParam c (paramName c) @ ''[]'') fs 0 formData
               | OneFile f \<Rightarrow> formData @ [(toNamespacedParam c (paramName c), FilePart f)]))"

text \<open>\<open>didUpload (data)\<close>\<close>

definition didUpload :: "uploader \<Rightarrow> jsval \<Rightarrow> jsval \<times> uploader" where
  "didUpload st data = (data, trigger ''didUpload'' [data] (set_isUploading False st))"

text \<open>
  \<open>didError (jqXHR, textStatus, errorThrown)\<close>. The object \<open>jqXHR\<close> is changed in place
  and returned: the result is the changed object.
\<close>

definition didError :: "uploader \<Rightarrow> jsval \<Rightarrow> jsval \<Rightarrow> jsval \<Rightarrow> jsval \<times> uploader" where
  "didError st jqXHR textStatus errorThrown =
     (let st1 = set_isUploading False st;
          jqXHR' =
            (if isObject jqXHR
             then (let j1 = js_set jqXHR ''then'' JNull in
                   if \<not> truthy (js_get j1 ''errorThrown'')
                   then (case errorThrown of
                           JStr reason \<Rightarrow> js_set j1 ''errorThrown'' (new_Error reason)
                         | _ \<Rightarrow> js_set j1 ''errorThrown'' errorThrown)
                   else j1)
             else jqXHR)
      in (jqXHR', trigger ''didError'' [jqXHR', textStatus, errorThrown] st1))"

text \<open>
  \<open>didProgress (event)\<close>: \<open>event.loaded / event.total * 100\<close> on numbers that are byte
  counts. The quotient is the exact one (the rounding of doubles is left out); a zero
  divisor gives \<open>NaN\<close> for \<open>0 / 0\<close> and \<open>Infinity\<close> otherwise.
\<close>

definition js_percent :: "nat \<Rightarrow> nat \<Rightarrow> jsnumber" where
  "js_percent l t =
     (if t = 0 then (if l = 0 then NaN else Infinity) else Finite (real l / real t * 100))"

definition didProgress :: "uploader \<Rightarrow> progress_event \<Rightarrow> progress_event \<times> uploader" where
  "didProgress st event =
     (let event' = event\<lparr>percent := Some (js_percent (loaded event) (total event))\<rparr>
      in (event', emit (TriggerProgress event') st))"

text \<open>\<open>abort ()\<close>\<close>

definition abort :: "uploader \<Rightarrow> uploader" where
  "abort st = trigger ''isAborting'' [] (set_isUploading False st)"

text \<open>
  \<open>ajaxPromise (xhr, data)\<close>: the executor of the promise runs at once. It adds the
  progress listener, registers the one-shot \<open>isAborting\<close> listener, installs \<open>onload\<close> and
  \<open>onerror\<close> (below) and sends. The pending promise is named by its transport.
\<close>

definition ajaxPromise :: "uploader \<Rightarrow> nat \<Rightarrow> body \<Rightarrow> nat \<times> uploader" where
  "ajaxPromise st xhr data =
     (let st1 = emit (XhrAddProgressListener xhr) st;
          st2 = st1\<lparr>aborting_once := aborting_once st1 @ [xhr]\<rparr>
      in (xhr, emit (XhrSend xhr data) st2))"

text \<open>How a promise stands: pending, resolved, rejected with a value, or rejected with an
  exception thrown in a \<open>then\<close> callback.\<close>

datatype promise = Pending | Resolved jsval | Rejected jsval | RejectedThrown exn

text \<open>\<open>xhr.onload\<close> and \<open>xhr.onerror\<close> of \<open>ajaxPromise\<close>.\<close>

definition ajaxPromise_onload :: "uploader \<Rightarrow> jsval \<Rightarrow> promise \<times> uploader" where
  "ajaxPromise_onload st response =
     (let (json, st1) = didUpload st response in (Resolved json, st1))"

definition ajaxPromise_onerror :: "uploader \<Rightarrow> jsval \<Rightarrow> jsval \<Rightarrow> jsval \<Rightarrow> promise \<times> uploader" where
  "ajaxPromise_onerror st jqXHR responseText errorThrown =
     (let (e, st1) = didError st jqXHR responseText errorThrown in (Rejected e, st1))"

text \<open>
  The progress listener is \<open>function (evt) { this.didProgress(evt) }\<close>: a \<open>function\<close>, so
  \<open>this\<close> is whatever the caller binds. Only the uploader has a \<open>didProgress\<close>; on any
  other receiver \<open>this.didProgress\<close> is \<open>undefined\<close> and the call is a \<open>TypeError\<close>.
\<close>

datatype receiver = TheUploader | TheXhrUpload nat

definition progress_listener ::
  "receiver \<Rightarrow> uploader \<Rightarrow> progress_event \<Rightarrow> exn + (progress_event \<times> uploader)" where
  "progress_listener this st evt =
     (case this of
        TheUploader \<Rightarrow> Inr (didProgress st evt)
      | TheXhrUpload x \<Rightarrow> Inl TypeError)"

text \<open>
  The transport, as \<open>XMLHttpRequest\<close> behaves: a listener added to \<open>xhr.upload\<close> is
  called with \<open>this\<close> bound to \<open>xhr.upload\<close>; \<open>load\<close> fires when a response has been
  received, whatever its HTTP status; \<open>error\<close> fires when the request failed on the
  network. The arguments of \<open>onerror\<close> are kept general (a browser passes the event
  alone, the other two are then \<open>undefined\<close>).
\<close>

datatype xhr_event = XhrLoad nat jsval | XhrError jsval jsval jsval

definition xhr_upload_progress ::
  "uploader \<Rightarrow> nat \<Rightarrow> progress_event \<Rightarrow> exn + (progress_event \<times> uploader)" where
  "xhr_upload_progress st xhr evt = progress_listener (TheXhrUpload xhr) st evt"

definition ajaxPromise_settle :: "uploader \<Rightarrow> xhr_event \<Rightarrow> promise \<times> uploader" where
  "ajaxPromise_settle st ev =
     (case ev of
        XhrLoad status response \<Rightarrow> ajaxPromise_onload st response
      | XhrError jqXHR responseText errorThrown \<Rightarrow>
          ajaxPromise_onerror st jqXHR responseText errorThrown)"

text \<open>
  \<open>ajax (url, data, method = this.method)\<close>. \<open>Object.keys\<close> of \<open>undefined\<close> throws a
  \<open>TypeError\<close>, after the transport has been opened.
\<close>

definition setRequestHeaders :: "nat \<Rightarrow> props \<Rightarrow> uploader \<Rightarrow> uploader" where
  "setRequestHeaders xhr headers st =
     fold (\<lambda>key. emit (XhrSetRequestHeader xhr key (js_get (JObj headers []) key)))
       (map fst headers) st"

definition ajax ::
  "config \<Rightarrow> uploader \<Rightarrow> jsval \<Rightarrow> body \<Rightarrow> string option \<Rightarrow> (exn \<times> uploader) + (nat \<times> uploader)" where
  "ajax c st target data method_arg =
     (let m = (case method_arg of None \<Rightarrow> upload_method c | Some m \<Rightarrow> m);
          (httpReq, st1) = new_XMLHttpRequest st;
          st2 = emit (XhrOpen httpReq m target) st1
      in case ajaxSettings_headers c of
           None \<Rightarrow> Inl (TypeError, st2)
         | Some ajaxSettings \<Rightarrow>
             Inr (ajaxPromise (setRequestHeaders httpReq ajaxSettings st2) httpReq data))"

text \<open>\<open>upload (files, extra = {})\<close> of the uploader. An exception of \<open>createFormData\<close>
  leaves the instance as it was.\<close>

definition upload ::
  "config \<Rightarrow> uploader \<Rightarrow> files \<Rightarrow> jsval \<Rightarrow> (exn \<times> uploader) + (nat \<times> uploader)" where
  "upload c st files extra_arg =
     (let extra = default_extra extra_arg in
      case createFormData c files extra of
        Inl thrown \<Rightarrow> Inl (thrown, st)
      | Inr data \<Rightarrow>
          (let st1 = set_isUploading True st
           in ajax c st1 (url c) (FormBody data) (Some (upload_method c))))"

text \<open>An upload, from the call to the settling of its promise by the transport's event
  (\<open>None\<close>: the transport never answers).\<close>

definition upload_run ::
  "config \<Rightarrow> uploader \<Rightarrow> files \<Rightarrow> jsval \<Rightarrow> xhr_event option \<Rightarrow>
     (exn \<times> uploader) + (promise \<times> uploader)" where
  "upload_run c st files extra answer =
     (case upload c st files extra of
        Inl thrown \<Rightarrow> Inl thrown
      | Inr (xhr, st1) \<Rightarrow>
          (case answer of
             None \<Rightarrow> Inr (Pending, st1)
           | Some ev \<Rightarrow> Inr (ajaxPromise_settle st1 ev)))"


section \<open>SigningUploader\<close>

text \<open>\<open>method.match(/get/i)\<close>: the letters g, e, t in either case, anywhere in the string.\<close>

fun matches_get :: "string \<Rightarrow> bool" where
  "matches_get (a # b # c # rest) =
     ((a = CHR ''g'' \<or> a = CHR ''G'') \<and> (b = CHR ''e'' \<or> b = CHR ''E'') \<and>
      (c = CHR ''t'' \<or> c = CHR ''T'') \<or> matches_get (b # c # rest))"
| "matches_get s = False"

text \<open>
  The three assignments \<open>extra.name = file.name; extra.type = file.type;
  extra.size = file.size\<close> of \<open>sign\<close>, on an object.
\<close>

definition with_file_metadata :: "file_handle \<Rightarrow> jsval \<Rightarrow> jsval" where
  "with_file_metadata file extra =
     (let extra1 = js_set extra ''name'' (JStr (file_name file));
          extra2 = js_set extra1 ''type'' (JStr (file_type file))
      in js_set extra2 ''size'' (JNum (int (file_size file))))"

text \<open>
  \<open>sign (file, extra = {})\<close>. \<open>extra\<close> is changed in place: the changed object is
  returned with the transport's name. Writing \<open>extra.name\<close> on a value that is no object
  throws; \<open>Object.keys\<close> of \<open>undefined\<close> headers throws after the transport has been
  opened and its \<open>Content-Type\<close> set.
\<close>

definition sign ::
  "config \<Rightarrow> uploader \<Rightarrow> file_handle \<Rightarrow> jsval \<Rightarrow>
     (exn \<times> uploader) + ((nat \<times> jsval) \<times> uploader)" where
  "sign c st file extra_arg =
     (let extra = default_extra extra_arg in
      if \<not> isObject extra then Inl (TypeError, st)
      else
        let extra' = with_file_metadata file extra;
            data = (if matches_get (signingMethod c) then ValueBody extra' else JSONBody extra');
            (xhr, st1) = new_XMLHttpRequest st;
            st2 = emit (XhrOpen xhr (signingMethod c) (signingUrl c)) st1;
            st3 = emit (XhrSetRequestHeader xhr ''Content-Type'' (JStr ''application/json'')) st2
        in case signingAjaxSettings_headers c of
             None \<Rightarrow> Inl (TypeError, st3)
           | Some signingAjaxSettings \<Rightarrow>
               (let st4 = setRequestHeaders xhr signingAjaxSettings st3;
                    st5 = set_isSigning True st4
                in Inr ((xhr, extra'), emit (XhrSend xhr data) st5)))"

text \<open>
  \<open>didErrorOnSign (jqXHR, textStatus, errorThrown)\<close> returns \<open>jqXHR\<close>, the object that
  \<open>didError\<close> has changed in place.
\<close>

definition didErrorOnSign :: "uploader \<Rightarrow> jsval \<Rightarrow> jsval \<Rightarrow> jsval \<Rightarrow> jsval \<times> uploader" where
  "didErrorOnSign st jqXHR textStatus errorThrown =
     (let st1 = set_isSigning False st;
          st2 = trigger ''didErrorOnSign'' [] st1
      in didError st2 jqXHR textStatus errorThrown)"

text \<open>\<open>didSign (response)\<close>\<close>

definition didSign :: "uploader \<Rightarrow> jsval \<Rightarrow> jsval \<times> uploader" where
  "didSign st response = (response, trigger ''didSign'' [response] st)"

text \<open>\<open>xhr.onload\<close> and \<open>xhr.onerror\<close> of \<open>sign\<close>, and the transport calling them.\<close>

definition sign_onload :: "uploader \<Rightarrow> jsval \<Rightarrow> promise \<times> uploader" where
  "sign_onload st response =
     (let (json, st1) = didSign st response in (Resolved json, st1))"

definition sign_onerror :: "uploader \<Rightarrow> jsval \<Rightarrow> jsval \<Rightarrow> jsval \<Rightarrow> promise \<times> uploader" where
  "sign_onerror st jqXHR responseText errorThrown =
     (let (e, st1) = didErrorOnSign st jqXHR responseText errorThrown in (Rejected e, st1))"

definition sign_settle :: "uploader \<Rightarrow> xhr_event \<Rightarrow> promise \<times> uploader" where
  "sign_settle st ev =
     (case ev of
        XhrLoad status response \<Rightarrow> sign_onload st response
      | XhrError jqXHR responseText errorThrown \<Rightarrow>
          sign_onerror st jqXHR responseText errorThrown)"

text \<open>
  The destination of the upload and the policy left for the form data (the \<open>if\<close> chain
  in the callback of \<open>upload\<close>), on a response that is neither \<open>null\<close> nor \<open>undefined\<close>.
  \<open>ts\<close> is the string conversion of the template literals.
\<close>

definition destination :: "(jsval \<Rightarrow> string) \<Rightarrow> jsval \<Rightarrow> jsval \<times> jsval" where
  "destination ts json =
     (if truthy (js_get json ''endpoint'')
      then (js_get json ''endpoint'', js_delete json ''endpoint'')
      else if truthy (js_get json ''region'')
      then (JStr (''https://s3-'' @ ts (js_get json ''region'') @ ''.amazonaws.com/'' @
                  ts (js_get json ''bucket'')),
            js_delete json ''region'')
      else (JStr (''https://'' @ ts (js_get json ''bucket'') @ ''.s3.amazonaws.com''), json))"

text \<open>
  The callback \<open>(json) => { ... }\<close> that \<open>upload\<close> chains on the signing promise. Reading
  \<open>json.endpoint\<close> on \<open>null\<close> or \<open>undefined\<close> throws; so may \<open>createFormData\<close>, whose
  result is an argument of the call of \<open>ajax\<close>.
\<close>

definition upload_then ::
  "config \<Rightarrow> (jsval \<Rightarrow> string) \<Rightarrow> uploader \<Rightarrow> file_handle \<Rightarrow> jsval \<Rightarrow>
     (exn \<times> uploader) + (nat \<times> uploader)" where
  "upload_then c ts st file json =
     (let st1 = set_isUploading True st in
      if json = JNull \<or> json = JUndefined then Inl (TypeError, st1)
      else
        let (target, policy) = destination ts json
        in case createFormData c (OneFile file) policy of
             Inl thrown \<Rightarrow> Inl (thrown, st1)
           | Inr data \<Rightarrow> ajax c st1 target (FormBody data) None)"

text \<open>
  \<open>upload (file, extra = {})\<close> of the signing uploader,
  \<open>this.sign(file, extra).then(callback)\<close>, from the call to the settling of the returned
  promise: \<open>sign_answer\<close> and \<open>upload_answer\<close> are the events of the two transports
  (\<open>None\<close>: no answer). A rejected signing promise passes its value on; an exception in
  the callback rejects the returned promise; otherwise the returned promise follows the
  upload's.
\<close>

definition signing_upload ::
  "config \<Rightarrow> (jsval \<Rightarrow> string) \<Rightarrow> uploader \<Rightarrow> file_handle \<Rightarrow> jsval \<Rightarrow>
     xhr_event option \<Rightarrow> xhr_event option \<Rightarrow> (exn \<times> uploader) + (promise \<times> uploader)" where
  "signing_upload c ts st file extra_arg sign_answer upload_answer =
     (case sign c st file (default_extra extra_arg) of
        Inl thrown \<Rightarrow> Inl thrown
      | Inr (signing, st1) \<Rightarrow>
          (case sign_answer of
             None \<Rightarrow> Inr (Pending, st1)
           | Some ev \<Rightarrow>
               (case sign_settle st1 ev of
                  (Resolved json, st2) \<Rightarrow>
                    (case upload_then c ts st2 file json of
                       Inl (thrown, st3) \<Rightarrow> Inr (RejectedThrown thrown, st3)
                     | Inr (xhr, st3) \<Rightarrow>
                         (case upload_answer of
                            None \<Rightarrow> Inr (Pending, st3)
                          | Some ev2 \<Rightarrow> Inr (ajaxPromise_settle st3 ev2)))
                | (settled, st2) \<Rightarrow> Inr (settled, st2))))"


section \<open>Reading a run\<close>

text \<open>A new instance, with the flags as the classes declare them.\<close>

definition new_uploader :: uploader where
  "new_uploader =
     \<lparr>isUploading = False, isSigning = False, aborting_once = [], xhr_count = 0, trace = []\<rparr>"

text \<open>A configured signing uploader and a file, for concrete runs.\<close>

definition example_config :: config where
  "example_config =
     \<lparr>url = JStr ''/upload'', upload_method = ''POST'', paramNamespace = Some ''post'',
      paramName = ''file'', ajaxSettings_headers = Some [],
      signingUrl = JStr ''/sign'', signingMethod = ''POST'',
      signingAjaxSettings_headers = Some [(''X-Token'', JStr ''t'')]\<rparr>"

definition example_file :: file_handle where
  "example_file = \<lparr>file_name = ''a.png'', file_type = ''image/png'', file_size = 3\<rparr>"

text \<open>The effects a step has added, and the kinds of effect that matter below.\<close>

definition added :: "uploader \<Rightarrow> uploader \<Rightarrow> effect list" where
  "added st st' = drop (length (trace st)) (trace st')"

fun is_XhrSend :: "effect \<Rightarrow> bool" where
  "is_XhrSend (XhrSend xhr data) = True"
| "is_XhrSend e = False"

fun is_XhrOpen :: "effect \<Rightarrow> bool" where
  "is_XhrOpen (XhrOpen xhr m target) = True"
| "is_XhrOpen e = False"

text \<open>Of a call: what it returned, if it did not throw, and the instance after it.\<close>

definition returned :: "(exn \<times> uploader) + ('a \<times> uploader) \<Rightarrow> 'a option" where
  "returned r = (case r of Inl thrown \<Rightarrow> None | Inr (v, st) \<Rightarrow> Some v)"

definition state_of :: "(exn \<times> uploader) + ('a \<times> uploader) \<Rightarrow> uploader" where
  "state_of r = (case r of Inl (thrown, st) \<Rightarrow> st | Inr (p, st) \<Rightarrow> st)"


section \<open>Facts about values and the two loops\<close>

lemma js_get_js_set:
  "isObject v \<Longrightarrow> js_get (js_set v k x) k' = (if k' = k then x else js_get v k')"
  by (cases v) (simp_all add: js_get_def update_conv' split: option.splits)

lemma isObject_js_set: "isObject (js_set v k x) = isObject v"
  by (cases v) simp_all

lemma inherited_props_js_set: "inherited_props (js_set v k x) = inherited_props v"
  by (cases v) simp_all

lemma filter_update_other:
  "\<not> P k \<Longrightarrow> filter (\<lambda>p. P (fst p)) (AList.update k x ps) = filter (\<lambda>p. P (fst p)) ps"
  by (induction ps) auto

lemma own_props_js_set_others:
  "\<not> P k \<Longrightarrow>
   filter (\<lambda>p. P (fst p)) (own_props (js_set v k x)) = filter (\<lambda>p. P (fst p)) (own_props v)"
  by (cases v) (simp_all add: filter_update_other)




lemma default_extra_idem: "default_extra (default_extra extra) = default_extra extra"
  by (cases extra) (simp_all add: default_extra_def)

lemma own_keys_default_extra: "own_keys (default_extra extra) = own_keys extra"
  by (cases extra) (simp_all add: default_extra_def own_keys_def)

lemma js_get_default_extra: "js_get (default_extra extra) k = js_get extra k"
  by (cases extra) (simp_all add: default_extra_def js_get_def)

lemma shadows_default_extra:
  "shadows_hasOwnProperty (default_extra extra) = shadows_hasOwnProperty extra"
  by (cases extra) (simp_all add: default_extra_def shadows_hasOwnProperty_def own_keys_def)

lemma default_extra_defined:
  "default_extra extra \<noteq> JUndefined"
  by (cases extra) (simp_all add: default_extra_def)

lemma call_hasOwnProperty_shadowed:
  "shadows_hasOwnProperty v \<Longrightarrow> call_hasOwnProperty v prop = Inl TypeError"
  by (simp add: call_hasOwnProperty_def)

lemma call_hasOwnProperty_builtin:
  "\<not> shadows_hasOwnProperty v \<Longrightarrow> v \<noteq> JNull \<Longrightarrow> v \<noteq> JUndefined \<Longrightarrow>
   call_hasOwnProperty v prop = Inr (hasOwnProperty v prop)"
  by (simp add: call_hasOwnProperty_def)

lemma append_extra_eq:
  "\<not> shadows_hasOwnProperty extra \<Longrightarrow> extra \<noteq> JNull \<Longrightarrow> extra \<noteq> JUndefined \<Longrightarrow>
   append_extra c extra keys formData =
     Inr (formData @ map (\<lambda>k. (toNamespacedParam c k, FieldPart (js_get extra k)))
                       (filter (hasOwnProperty extra) keys))"
  by (induction keys arbitrary: formData) (simp_all add: call_hasOwnProperty_builtin)

lemma append_extra_throws:
  "shadows_hasOwnProperty extra \<Longrightarrow> keys \<noteq> [] \<Longrightarrow>
   append_extra c extra keys formData = Inl TypeError"
  by (cases keys) (simp_all add: call_hasOwnProperty_shadowed)

lemma shadowed_is_visited:
  "shadows_hasOwnProperty v \<Longrightarrow> for_in_keys v \<noteq> []"
proof -
  assume "shadows_hasOwnProperty v"
  then have "''hasOwnProperty'' \<in> set (for_in_keys v)"
    by (auto simp: shadows_hasOwnProperty_def for_in_keys_def)
  then show ?thesis
    by auto
qed

lemma own_for_in_keys: "filter (hasOwnProperty v) (for_in_keys v) = own_keys v"
  by (simp add: for_in_keys_def hasOwnProperty_def filter_id_conv)

lemma append_files_eq:
  "append_files paramKey fs i formData = formData @ map (\<lambda>f. (paramKey, FilePart f)) (drop i fs)"
proof (induction paramKey fs i formData rule: append_files.induct)
  case (1 paramKey fs i formData)
  show ?case
  proof (cases "i < length fs")
    case True
    then have "drop i fs = fs ! i # drop (Suc i) fs"
      by (simp add: Cons_nth_drop_Suc)
    with True 1 show ?thesis
      by (simp add: append_files.simps [of paramKey fs i])
  next
    case False
    then show ?thesis
      by (simp add: append_files.simps [of paramKey fs i])
  qed
qed

section \<open>The steps as record updates\<close>

lemma fold_emit:
  "fold (\<lambda>key. emit (f key)) ks st = st\<lparr>trace := trace st @ map f ks\<rparr>"
  by (induction ks arbitrary: st) (simp_all add: emit_def)

lemma setRequestHeaders_eq:
  "setRequestHeaders xhr hs st =
     st\<lparr>trace := trace st @
            map (\<lambda>key. XhrSetRequestHeader xhr key (js_get (JObj hs []) key)) (map fst hs)\<rparr>"
  unfolding setRequestHeaders_def by (rule fold_emit)

lemma abort_eq:
  "abort st = st\<lparr>isUploading := False, aborting_once := [],
     trace := trace st @ [Set_isUploading False, Trigger ''isAborting'' []] @
              map XhrAbort (rev (aborting_once st))\<rparr>"
  by (simp add: abort_def trigger_def set_isUploading_def emit_def Let_def)

lemma didError_object:
  "isObject errObj \<Longrightarrow>
   fst (didError st errObj textStatus errorThrown) =
     (if truthy (js_get errObj ''errorThrown'') then js_set errObj ''then'' JNull
      else js_set (js_set errObj ''then'' JNull) ''errorThrown''
             (case errorThrown of JStr reason \<Rightarrow> new_Error reason | _ \<Rightarrow> errorThrown))"
  by (cases errorThrown) (simp_all add: didError_def Let_def js_get_js_set)

lemma didError_state:
  "snd (didError st errObj textStatus errorThrown) =
     st\<lparr>isUploading := False,
        trace := trace st @ [Set_isUploading False,
          Trigger ''didError'' [fst (didError st errObj textStatus errorThrown), textStatus, errorThrown]]\<rparr>"
  by (simp add: didError_def Let_def trigger_def set_isUploading_def emit_def)

lemma didErrorOnSign_state:
  "snd (didErrorOnSign st jqXHR textStatus errorThrown) =
     st\<lparr>isUploading := False, isSigning := False,
        trace := trace st @
          [Set_isSigning False, Trigger ''didErrorOnSign'' [], Set_isUploading False,
           Trigger ''didError''
             [fst (didErrorOnSign st jqXHR textStatus errorThrown), textStatus, errorThrown]]\<rparr>"
  by (simp add: didErrorOnSign_def didError_def Let_def trigger_def set_isUploading_def
      set_isSigning_def emit_def)

lemma sign_settle_error:
  "sign_settle st (XhrError jqXHR responseText errorThrown) =
     (Rejected (fst (didErrorOnSign st jqXHR responseText errorThrown)),
      snd (didErrorOnSign st jqXHR responseText errorThrown))"
  by (simp add: sign_settle_def sign_onerror_def case_prod_beta)

lemma sign_eq:
  "signingAjaxSettings_headers c = Some headers \<Longrightarrow> isObject (default_extra extra) \<Longrightarrow>
   sign c st file extra =
     Inr ((xhr_count st, with_file_metadata file (default_extra extra)),
          st\<lparr>isSigning := True, xhr_count := Suc (xhr_count st),
             trace := trace st @
               [XhrOpen (xhr_count st) (signingMethod c) (signingUrl c),
                XhrSetRequestHeader (xhr_count st) ''Content-Type'' (JStr ''application/json'')] @
               map (\<lambda>key. XhrSetRequestHeader (xhr_count st) key (js_get (JObj headers []) key))
                 (map fst headers) @
               [Set_isSigning True,
                XhrSend (xhr_count st)
                  (if matches_get (signingMethod c)
                   then ValueBody (with_file_metadata file (default_extra extra))
                   else JSONBody (with_file_metadata file (default_extra extra)))]\<rparr>)"
  by (simp add: sign_def Let_def new_XMLHttpRequest_def setRequestHeaders_eq emit_def
      set_isSigning_def)

lemma added_append: "trace st' = trace st @ es \<Longrightarrow> added st st' = es"
  by (simp add: added_def)

lemma filter_headers_not_send:
  "filter is_XhrSend (map (\<lambda>key. XhrSetRequestHeader x key (f key)) ks) = []"
  by (induction ks) simp_all

lemma filter_headers_not_open:
  "filter is_XhrOpen (map (\<lambda>key. XhrSetRequestHeader x key (f key)) ks) = []"
  by (induction ks) simp_all

lemma sign_default_extra: "sign c st file (default_extra extra) = sign c st file extra"
  by (simp add: sign_def default_extra_idem)

lemma count_map_XhrAbort: "count_list (map XhrAbort xs) (XhrAbort xhr) = count_list xs xhr"
  by (induction xs) simp_all

lemma funpow_abort:
  "aborting_once ((abort ^^ Suc n) st) = [] \<and>
   \<not> isUploading ((abort ^^ Suc n) st) \<and>
   count_list (trace ((abort ^^ Suc n) st)) (XhrAbort xhr) =
     count_list (trace st) (XhrAbort xhr) + count_list (aborting_once st) xhr"
proof (induction n)
  case 0
  show ?case
    by (simp add: abort_eq count_map_XhrAbort count_list_rev)
next
  case (Suc n)
  then show ?case
    by (simp add: abort_eq)
qed

section \<open>The claims\<close>




text \<open>
  C2. When \<open>extra\<close> has no property named \<open>hasOwnProperty\<close>, the form data is one
  field per own enumerable key of \<open>extra\<close>, under the namespaced key and with the value
  \<open>extra[key]\<close> (inherited keys give none), followed by the files: for an \<open>Array\<close> or
  \<open>FileList\<close>, every file in order under the one key \<open>toNamespacedParam(paramName)\<close>
  followed by \<open>[]\<close>; for anything else, the one file under
  \<open>toNamespacedParam(paramName)\<close>. When \<open>extra\<close> has such a property, own or inherited,
  the call \<open>extra.hasOwnProperty(prop)\<close> of the first iteration throws a \<open>TypeError\<close> and
  no form data is built: so for \<open>{hasOwnProperty: 'x'}\<close>.
\<close>

theorem createFormData_entries:
  "createFormData c files extra =
     (if shadows_hasOwnProperty extra then Inl TypeError
      else Inr (map (\<lambda>prop. (toNamespacedParam c prop, FieldPart (js_get extra prop)))
                  (own_keys extra) @
                (case files of
                   FileList fs \<Rightarrow>
                     map (\<lambda>f. (toNamespacedParam c (paramName c) @ ''[]'', FilePart f)) fs
                 | Array fs \<Rightarrow>
                     map (\<lambda>f. (toNamespacedParam c (paramName c) @ ''[]'', FilePart f)) fs
                 | OneFile f \<Rightarrow> [(toNamespacedParam c (paramName c), FilePart f)]))) \<and>
   createFormData example_config (OneFile example_file)
       (JObj [(''hasOwnProperty'', JStr ''x'')] []) = Inl TypeError"
proof -
  have general: "createFormData c' files' extra' =
     (if shadows_hasOwnProperty extra' then Inl TypeError
      else Inr (map (\<lambda>prop. (toNamespacedParam c' prop, FieldPart (js_get extra' prop)))
                  (own_keys extra') @
                (case files' of
                   FileList fs \<Rightarrow>
                     map (\<lambda>f. (toNamespacedParam c' (paramName c') @ ''[]'', FilePart f)) fs
                 | Array fs \<Rightarrow>
                     map (\<lambda>f. (toNamespacedParam c' (paramName c') @ ''[]'', FilePart f)) fs
                 | OneFile f \<Rightarrow> [(toNamespacedParam c' (paramName c'), FilePart f)])))"
    for c' files' extra'
  proof (cases "shadows_hasOwnProperty extra'")
    case True
    let ?extra = "default_extra extra'"
    from True have shadowed: "shadows_hasOwnProperty ?extra"
      by (simp add: shadows_default_extra)
    then have "append_extra c' ?extra (for_in_keys ?extra) [] = Inl TypeError"
      by (rule append_extra_throws) (rule shadowed_is_visited [OF shadowed])
    with True show ?thesis
      by (simp add: createFormData_def)
  next
    case False
    let ?extra = "default_extra extra'"
    from False have builtin: "\<not> shadows_hasOwnProperty ?extra"
      by (simp add: shadows_default_extra)
    have fields: "append_extra c' ?extra (for_in_keys ?extra) [] =
        Inr (map (\<lambda>prop. (toNamespacedParam c' prop, FieldPart (js_get extra' prop)))
               (own_keys extra'))"
    proof (cases "?extra = JNull")
      case True
      then have "extra' = JNull"
        by (cases extra') (simp_all add: default_extra_def)
      then show ?thesis
        by (simp add: default_extra_def for_in_keys_def own_keys_def)
    next
      case False
      with builtin show ?thesis
        by (simp add: append_extra_eq default_extra_defined own_for_in_keys
            own_keys_default_extra js_get_default_extra)
    qed
    show ?thesis
    proof (cases files')
      case (FileList fs)
      with fields False show ?thesis
        by (simp add: createFormData_def append_files_eq)
    next
      case (Array fs)
      with fields False show ?thesis
        by (simp add: createFormData_def append_files_eq)
    next
      case (OneFile f)
      with fields False show ?thesis
        by (simp add: createFormData_def)
    qed
  qed
  have shadowed: "shadows_hasOwnProperty (JObj [(''hasOwnProperty'', JStr ''x'')] [])"
    by (simp add: shadows_hasOwnProperty_def own_keys_def)
  have failing: "createFormData example_config (OneFile example_file)
       (JObj [(''hasOwnProperty'', JStr ''x'')] []) = Inl TypeError"
    by (simp add: general shadowed)
  from general [of c files extra] failing show ?thesis
    by (rule conjI)
qed

theorem createFormData_entries_witness:
  "createFormData example_config (Array [example_file, example_file\<lparr>file_name := ''b.png''\<rparr>])
      (JObj [(''caption'', JStr ''hi'')] [(''inherited'', JNum 1)]) =
     Inr [(''post[caption]'', FieldPart (JStr ''hi'')),
          (''post[file][]'', FilePart example_file),
          (''post[file][]'', FilePart (example_file\<lparr>file_name := ''b.png''\<rparr>))]"
  using createFormData_entries [of example_config
      "Array [example_file, example_file\<lparr>file_name := ''b.png''\<rparr>]"
      "JObj [(''caption'', JStr ''hi'')] [(''inherited'', JNum 1)]"]
  by (simp add: toNamespacedParam_def example_config_def own_keys_def js_get_def
      shadows_hasOwnProperty_def)

text \<open>
  C3. When the signing request has been made (the signing headers are configured and
  \<open>extra\<close> is an object) and its transport fails, the promise that \<open>upload\<close> returns is
  the signing promise's rejection, with the same value, whatever the upload's transport
  would answer; \<open>isUploading\<close> is never set to true, the only transport opened is the
  signing one, one request is sent (the signing one), no second transport is created,
  and \<open>isUploading\<close> is false at the end.
\<close>

theorem signing_failure_short_circuits:
  assumes headers: "signingAjaxSettings_headers c = Some headers"
    and obj: "isObject (default_extra extra)"
  shows
   "returned (signing_upload c ts st file extra
        (Some (XhrError jqXHR responseText errorThrown)) upload_answer) =
      Some (fst (sign_settle (state_of (sign c st file extra))
                   (XhrError jqXHR responseText errorThrown))) \<and>
    fst (sign_settle (state_of (sign c st file extra)) (XhrError jqXHR responseText errorThrown)) =
      Rejected (fst (didErrorOnSign (state_of (sign c st file extra))
                       jqXHR responseText errorThrown)) \<and>
    Set_isUploading True \<notin> set (added st (state_of (signing_upload c ts st file extra
        (Some (XhrError jqXHR responseText errorThrown)) upload_answer))) \<and>
    filter is_XhrOpen (added st (state_of (signing_upload c ts st file extra
        (Some (XhrError jqXHR responseText errorThrown)) upload_answer))) =
      [XhrOpen (xhr_count st) (signingMethod c) (signingUrl c)] \<and>
    length (filter is_XhrSend (added st (state_of (signing_upload c ts st file extra
        (Some (XhrError jqXHR responseText errorThrown)) upload_answer)))) = 1 \<and>
    xhr_count (state_of (signing_upload c ts st file extra
        (Some (XhrError jqXHR responseText errorThrown)) upload_answer)) = Suc (xhr_count st) \<and>
    \<not> isUploading (state_of (signing_upload c ts st file extra
        (Some (XhrError jqXHR responseText errorThrown)) upload_answer))"
proof -
  let ?ev = "XhrError jqXHR responseText errorThrown"
  let ?signed = "sign c st file extra"
  let ?st1 = "state_of ?signed"
  let ?run = "signing_upload c ts st file extra (Some ?ev) upload_answer"
  note s = sign_eq [OF headers obj, of st "file"]
  have same: "sign c st file (default_extra extra) = ?signed"
    using obj by (simp add: sign_eq [OF headers] default_extra_idem)
  have run: "?run = Inr (sign_settle ?st1 ?ev)"
    unfolding signing_upload_def same
    by (simp add: s state_of_def sign_settle_error)
  have st2: "state_of ?run = snd (didErrorOnSign ?st1 jqXHR responseText errorThrown)"
    by (simp add: run state_of_def sign_settle_error)
  have tr: "added st (state_of ?run) =
      [XhrOpen (xhr_count st) (signingMethod c) (signingUrl c),
       XhrSetRequestHeader (xhr_count st) ''Content-Type'' (JStr ''application/json'')] @
      map (\<lambda>key. XhrSetRequestHeader (xhr_count st) key (js_get (JObj headers []) key))
        (map fst headers) @
      [Set_isSigning True,
       XhrSend (xhr_count st)
         (if matches_get (signingMethod c)
          then ValueBody (with_file_metadata file (default_extra extra))
          else JSONBody (with_file_metadata file (default_extra extra))),
       Set_isSigning False, Trigger ''didErrorOnSign'' [], Set_isUploading False,
       Trigger ''didError''
         [fst (didErrorOnSign ?st1 jqXHR responseText errorThrown), responseText, errorThrown]]"
    by (rule added_append) (simp add: st2 didErrorOnSign_state, simp add: s state_of_def)
  have 1: "returned ?run = Some (fst (sign_settle ?st1 ?ev))"
    by (simp add: run returned_def case_prod_beta)
  have 2: "fst (sign_settle ?st1 ?ev) =
      Rejected (fst (didErrorOnSign ?st1 jqXHR responseText errorThrown))"
    by (simp add: sign_settle_error)
  have 3: "Set_isUploading True \<notin> set (added st (state_of ?run))"
    unfolding tr by auto
  have 4: "filter is_XhrOpen (added st (state_of ?run)) =
      [XhrOpen (xhr_count st) (signingMethod c) (signingUrl c)]"
    unfolding tr by (simp add: filter_headers_not_open del: map_map)
  have 5: "length (filter is_XhrSend (added st (state_of ?run))) = 1"
    unfolding tr by (simp add: filter_headers_not_send del: map_map)
  have 6: "xhr_count (state_of ?run) = Suc (xhr_count st)"
    by (simp add: st2 didErrorOnSign_state) (simp add: s state_of_def)
  have 7: "\<not> isUploading (state_of ?run)"
    by (simp add: st2 didErrorOnSign_state)
  from 1 2 3 4 5 6 7 show ?thesis
    by blast
qed

theorem signing_failure_short_circuits_witness:
  "signingAjaxSettings_headers example_config = Some [(''X-Token'', JStr ''t'')] \<and>
   isObject (default_extra JUndefined) \<and>
   returned (signing_upload example_config ToString new_uploader example_file JUndefined
       (Some (XhrError (JObj [(''type'', JStr ''error'')] []) JUndefined JUndefined))
       (Some (XhrLoad 200 JNull))) =
     Some (Rejected (JObj [(''type'', JStr ''error''), (''then'', JNull),
                           (''errorThrown'', JUndefined)] []))"
proof -
  have h1: "signingAjaxSettings_headers example_config = Some [(''X-Token'', JStr ''t'')]"
    by (simp add: example_config_def)
  have h2: "isObject (default_extra JUndefined)"
    by (simp add: default_extra_def)
  have v: "fst (didErrorOnSign st (JObj [(''type'', JStr ''error'')] []) JUndefined JUndefined) =
      JObj [(''type'', JStr ''error''), (''then'', JNull), (''errorThrown'', JUndefined)] []" for st
    by (simp add: didErrorOnSign_def didError_def Let_def js_get_def)
  from signing_failure_short_circuits [OF h1 h2, of ToString new_uploader example_file
      "JObj [(''type'', JStr ''error'')] []" JUndefined JUndefined "Some (XhrLoad 200 JNull)"]
  show ?thesis
    by (simp add: h1 h2 v)
qed

text \<open>
  C4, as the claim states it, fails: a response with a non-success status completes the
  transport, \<open>onload\<close> runs, and the promise is resolved with the response; on the upload
  (status 500) as on the signing call (status 403).
\<close>

theorem upload_status_counterexample:
  "returned (upload_run example_config new_uploader (OneFile example_file) JUndefined
      (Some (XhrLoad 500 (JStr ''Internal Server Error'')))) =
     Some (Resolved (JStr ''Internal Server Error'')) \<and>
   fst (sign_settle new_uploader (XhrLoad 403 (JStr ''Forbidden''))) =
     Resolved (JStr ''Forbidden'')"
  by (simp add: upload_run_def upload_def createFormData_def default_extra_def for_in_keys_def
      own_keys_def ajax_def example_config_def Let_def
      new_XMLHttpRequest_def ajaxPromise_def returned_def ajaxPromise_settle_def
      ajaxPromise_onload_def didUpload_def sign_settle_def sign_onload_def didSign_def)

text \<open>
  C4, amended. A transport that fails on the network (its \<open>error\<close> event) rejects the
  promise with the error object that \<open>didError\<close> returns, after the event \<open>didError\<close> on
  the upload and the events \<open>didErrorOnSign\<close> and \<open>didError\<close> on the signing call; the
  handlers do not throw. A transport that completes resolves the promise with the
  response, whatever the HTTP status.
\<close>

theorem transport_errors_reject:
  "ajaxPromise_settle st (XhrError jqXHR responseText errorThrown) =
     (Rejected (fst (didError st jqXHR responseText errorThrown)),
      snd (didError st jqXHR responseText errorThrown)) \<and>
   added st (snd (ajaxPromise_settle st (XhrError jqXHR responseText errorThrown))) =
     [Set_isUploading False,
      Trigger ''didError'' [fst (didError st jqXHR responseText errorThrown), responseText,
        errorThrown]] \<and>
   sign_settle st (XhrError jqXHR responseText errorThrown) =
     (Rejected (fst (didErrorOnSign st jqXHR responseText errorThrown)),
      snd (didErrorOnSign st jqXHR responseText errorThrown)) \<and>
   added st (snd (sign_settle st (XhrError jqXHR responseText errorThrown))) =
     [Set_isSigning False, Trigger ''didErrorOnSign'' [], Set_isUploading False,
      Trigger ''didError'' [fst (didErrorOnSign st jqXHR responseText errorThrown), responseText,
        errorThrown]] \<and>
   fst (ajaxPromise_settle st (XhrLoad status response)) = Resolved response \<and>
   fst (sign_settle st (XhrLoad status response)) = Resolved response"
proof -
  have up: "ajaxPromise_settle st (XhrError jqXHR responseText errorThrown) =
     (Rejected (fst (didError st jqXHR responseText errorThrown)),
      snd (didError st jqXHR responseText errorThrown))"
    by (simp add: ajaxPromise_settle_def ajaxPromise_onerror_def case_prod_beta)
  have up_events: "added st (snd (ajaxPromise_settle st (XhrError jqXHR responseText errorThrown))) =
     [Set_isUploading False,
      Trigger ''didError'' [fst (didError st jqXHR responseText errorThrown), responseText,
        errorThrown]]"
    by (rule added_append) (simp add: up didError_state)
  have sg: "sign_settle st (XhrError jqXHR responseText errorThrown) =
     (Rejected (fst (didErrorOnSign st jqXHR responseText errorThrown)),
      snd (didErrorOnSign st jqXHR responseText errorThrown))"
    by (rule sign_settle_error)
  have sg_events: "added st (snd (sign_settle st (XhrError jqXHR responseText errorThrown))) =
     [Set_isSigning False, Trigger ''didErrorOnSign'' [], Set_isUploading False,
      Trigger ''didError'' [fst (didErrorOnSign st jqXHR responseText errorThrown), responseText,
        errorThrown]]"
    by (rule added_append) (simp add: sg didErrorOnSign_state)
  have loads: "fst (ajaxPromise_settle st (XhrLoad status response)) = Resolved response"
    "fst (sign_settle st (XhrLoad status response)) = Resolved response"
    by (simp_all add: ajaxPromise_settle_def ajaxPromise_onload_def didUpload_def
        sign_settle_def sign_onload_def didSign_def)
  from up up_events sg sg_events loads show ?thesis
    by blast
qed

text \<open>
  C5, as the claim states it, fails: on an object without an \<open>errorThrown\<close> field and
  with the argument \<open>errorThrown\<close> undefined (what a browser's \<open>error\<close> event gives), the
  field that \<open>didError\<close> attaches is \<open>undefined\<close>.
\<close>

theorem didError_counterexample:
  "isObject (JObj [] []) \<and>
   \<not> hasOwnProperty (JObj [] []) ''errorThrown'' \<and>
   js_get (fst (didError new_uploader (JObj [] []) (JStr ''error'') JUndefined)) ''errorThrown''
     = JUndefined"
  by (simp add: didError_def hasOwnProperty_def own_keys_def js_get_def Let_def)

text \<open>
  C5, amended. After \<open>didError(errObj, textStatus, errorThrown)\<close> the flag \<open>isUploading\<close>
  is false. If \<open>errObj\<close> is an object, the function returns it with \<open>then\<close> set to \<open>null\<close>
  and with \<open>errorThrown\<close> kept when it was truthy, and otherwise set to the argument
  \<open>errorThrown\<close>: wrapped in an \<open>Error\<close> when the argument is a string, as it was passed
  when it is anything else. Every other property is as it was. If \<open>errObj\<close> is no object
  it is returned as it is.
\<close>

theorem didError_shapes:
  "\<not> isUploading (snd (didError st errObj textStatus errorThrown)) \<and>
   (if isObject errObj
    then js_get (fst (didError st errObj textStatus errorThrown)) ''then'' = JNull \<and>
         js_get (fst (didError st errObj textStatus errorThrown)) ''errorThrown'' =
           (if truthy (js_get errObj ''errorThrown'') then js_get errObj ''errorThrown''
            else case errorThrown of JStr reason \<Rightarrow> new_Error reason | _ \<Rightarrow> errorThrown) \<and>
         inherited_props (fst (didError st errObj textStatus errorThrown)) =
           inherited_props errObj \<and>
         filter (\<lambda>p. fst p \<noteq> ''then'' \<and> fst p \<noteq> ''errorThrown'')
            (own_props (fst (didError st errObj textStatus errorThrown))) =
         filter (\<lambda>p. fst p \<noteq> ''then'' \<and> fst p \<noteq> ''errorThrown'') (own_props errObj)
    else fst (didError st errObj textStatus errorThrown) = errObj)"
proof (cases "isObject errObj")
  case False
  then show ?thesis
    by (simp add: didError_def Let_def trigger_def set_isUploading_def emit_def)
next
  case True
  let ?r = "fst (didError st errObj textStatus errorThrown)"
  let ?keep = "\<lambda>k. k \<noteq> ''then'' \<and> k \<noteq> ''errorThrown''"
  have up: "\<not> isUploading (snd (didError st errObj textStatus errorThrown))"
    by (simp add: didError_state)
  have then_null: "js_get ?r ''then'' = JNull"
    using True by (simp add: didError_object js_get_js_set isObject_js_set)
  have thrown: "js_get ?r ''errorThrown'' =
      (if truthy (js_get errObj ''errorThrown'') then js_get errObj ''errorThrown''
       else case errorThrown of JStr reason \<Rightarrow> new_Error reason | _ \<Rightarrow> errorThrown)"
    using True by (simp add: didError_object js_get_js_set isObject_js_set)
  have inh: "inherited_props ?r = inherited_props errObj"
    using True by (simp add: didError_object inherited_props_js_set)
  have rest: "filter (\<lambda>p. ?keep (fst p)) (own_props ?r) =
      filter (\<lambda>p. ?keep (fst p)) (own_props errObj)"
    using True by (simp add: didError_object own_props_js_set_others [where P = ?keep])
  from True up then_null thrown inh rest show ?thesis
    by simp
qed

theorem didError_shapes_witness:
  "js_get (fst (didError new_uploader (JObj [(''status'', JNum 0)] []) (JStr ''error'')
      (JStr ''timeout''))) ''errorThrown'' = new_Error ''timeout'' \<and>
   js_get (fst (didError new_uploader (JObj [(''status'', JNum 0)] []) (JStr ''error'')
      (JStr ''timeout''))) ''then'' = JNull"
  using didError_shapes [of new_uploader "JObj [(''status'', JNum 0)] []" "JStr ''error''"
      "JStr ''timeout''"]
  by (simp add: js_get_def)

text \<open>
  C6. \<open>didSign\<close> returns the response it is given, and it leaves \<open>isSigning\<close> as it
  finds it: after \<open>sign\<close> has set the flag, it is still true once the signing transport
  has completed and \<open>didSign\<close> has returned.
\<close>

theorem didSign_leaves_isSigning:
  "fst (didSign st response) = response \<and>
   isSigning (snd (didSign st response)) = isSigning st \<and>
   isSigning (state_of (sign example_config new_uploader example_file JUndefined)) \<and>
   isSigning (snd (sign_settle (state_of (sign example_config new_uploader example_file JUndefined))
                (XhrLoad 200 response)))"
proof -
  have kept: "isSigning (snd (didSign s response)) = isSigning s" for s
    by (simp add: didSign_def trigger_def emit_def Let_def)
  have signing: "isSigning (state_of (sign example_config new_uploader example_file JUndefined))"
    by (simp add: sign_eq [where headers = "[(''X-Token'', JStr ''t'')]"] example_config_def
        default_extra_def state_of_def)
  have settle: "snd (sign_settle s (XhrLoad 200 response)) = snd (didSign s response)" for s
    by (simp add: sign_settle_def sign_onload_def case_prod_beta)
  have passed: "fst (didSign st response) = response"
    by (simp add: didSign_def)
  from passed kept signing settle show ?thesis
    by simp
qed

text \<open>
  C7. When the signing headers are configured and \<open>extra\<close> is an object, \<open>sign\<close> returns
  a promise after exactly these effects: the transport is opened with the signing method
  on \<open>signingUrl\<close> as it is configured, whatever the method and the mapping; the header
  \<open>Content-Type: application/json\<close> and every configured signing header are set; the flag
  is set; and one request is sent. For a method that matches \<open>/get/i\<close> what is handed to
  \<open>send\<close> is the mapping itself, a plain object: no query string is built from it, so
  nothing of the mapping is sent as query-style data. For any other method the JSON
  serialization of the mapping is handed to \<open>send\<close>.
\<close>

theorem sign_request_trace:
  assumes headers: "signingAjaxSettings_headers c = Some headers"
    and obj: "isObject (default_extra extra)"
  shows
   "returned (sign c st file extra) =
      Some (xhr_count st, with_file_metadata file (default_extra extra)) \<and>
    js_get (with_file_metadata file (default_extra extra)) ''name'' = JStr (file_name file) \<and>
    js_get (with_file_metadata file (default_extra extra)) ''type'' = JStr (file_type file) \<and>
    js_get (with_file_metadata file (default_extra extra)) ''size'' = JNum (int (file_size file)) \<and>
    added st (state_of (sign c st file extra)) =
      [XhrOpen (xhr_count st) (signingMethod c) (signingUrl c),
       XhrSetRequestHeader (xhr_count st) ''Content-Type'' (JStr ''application/json'')] @
      map (\<lambda>key. XhrSetRequestHeader (xhr_count st) key (js_get (JObj headers []) key))
        (map fst headers) @
      [Set_isSigning True,
       XhrSend (xhr_count st)
         (if matches_get (signingMethod c)
          then ValueBody (with_file_metadata file (default_extra extra))
          else JSONBody (with_file_metadata file (default_extra extra)))]"
proof -
  note s = sign_eq [OF headers obj, of st "file"]
  let ?extra' = "with_file_metadata file (default_extra extra)"
  have tr: "added st (state_of (sign c st file extra)) =
      [XhrOpen (xhr_count st) (signingMethod c) (signingUrl c),
       XhrSetRequestHeader (xhr_count st) ''Content-Type'' (JStr ''application/json'')] @
      map (\<lambda>key. XhrSetRequestHeader (xhr_count st) key (js_get (JObj headers []) key))
        (map fst headers) @
      [Set_isSigning True,
       XhrSend (xhr_count st)
         (if matches_get (signingMethod c) then ValueBody ?extra' else JSONBody ?extra')]"
    by (rule added_append) (simp add: s state_of_def)
  have ret: "returned (sign c st file extra) = Some (xhr_count st, ?extra')"
    by (simp add: s returned_def)
  have meta: "js_get ?extra' ''name'' = JStr (file_name file)"
    "js_get ?extra' ''type'' = JStr (file_type file)"
    "js_get ?extra' ''size'' = JNum (int (file_size file))"
    using obj by (simp_all add: with_file_metadata_def Let_def js_get_js_set isObject_js_set)
  from ret meta tr show ?thesis
    by blast
qed

theorem sign_request_trace_witness:
  "signingAjaxSettings_headers (example_config\<lparr>signingMethod := ''GET''\<rparr>) =
     Some [(''X-Token'', JStr ''t'')] \<and>
   isObject (default_extra (JObj [(''acl'', JStr ''private'')] [])) \<and>
   matches_get (signingMethod (example_config\<lparr>signingMethod := ''GET''\<rparr>)) \<and>
   added new_uploader
       (state_of (sign (example_config\<lparr>signingMethod := ''GET''\<rparr>) new_uploader example_file
          (JObj [(''acl'', JStr ''private'')] []))) =
     [XhrOpen 0 ''GET'' (JStr ''/sign''),
      XhrSetRequestHeader 0 ''Content-Type'' (JStr ''application/json''),
      XhrSetRequestHeader 0 ''X-Token'' (JStr ''t''),
      Set_isSigning True,
      XhrSend 0 (ValueBody (JObj [(''acl'', JStr ''private''), (''name'', JStr ''a.png''),
         (''type'', JStr ''image/png''), (''size'', JNum 3)] []))]"
proof -
  have h1: "signingAjaxSettings_headers (example_config\<lparr>signingMethod := ''GET''\<rparr>) =
       Some [(''X-Token'', JStr ''t'')]"
    by (simp add: example_config_def)
  have h2: "isObject (default_extra (JObj [(''acl'', JStr ''private'')] []))"
    by (simp add: default_extra_def)
  have m: "matches_get (signingMethod (example_config\<lparr>signingMethod := ''GET''\<rparr>))"
    by simp
  have e: "with_file_metadata example_file (default_extra (JObj [(''acl'', JStr ''private'')] [])) =
      JObj [(''acl'', JStr ''private''), (''name'', JStr ''a.png''),
         (''type'', JStr ''image/png''), (''size'', JNum 3)] []"
    by (simp add: with_file_metadata_def default_extra_def example_file_def)
  from sign_request_trace [OF h1 h2, of new_uploader example_file] h1 h2 m
  show ?thesis
    by (simp add: e new_uploader_def example_config_def js_get_def)
qed

text \<open>
  C8. The progress listener that \<open>ajaxPromise\<close> adds is called by the transport with
  \<open>this\<close> bound to \<open>xhr.upload\<close>: the call \<open>this.didProgress(evt)\<close> throws, \<open>percent\<close> is
  not set and no \<open>progress\<close> event is triggered. Called on the uploader, the same
  listener would run \<open>didProgress\<close>.
\<close>

theorem progress_wiring_throws:
  "xhr_upload_progress st xhr evt = Inl TypeError \<and>
   progress_listener TheUploader st evt = Inr (didProgress st evt)"
proof -
  have bound: "xhr_upload_progress st xhr evt = progress_listener (TheXhrUpload xhr) st evt"
    by (simp add: xhr_upload_progress_def)
  have missing: "progress_listener (TheXhrUpload xhr) st evt = Inl TypeError"
    by (simp add: progress_listener_def)
  have intended: "progress_listener TheUploader st evt = Inr (didProgress st evt)"
    by (simp add: progress_listener_def)
  from bound missing intended show ?thesis
    by simp
qed

text \<open>
  C9. After \<open>ajaxPromise\<close> on a transport that has no \<open>isAborting\<close> listener yet, any
  number \<open>n > 0\<close> of calls of \<open>abort\<close> aborts that transport exactly once and leaves
  \<open>isUploading\<close> false; one more \<open>abort\<close> only sets the flag and triggers \<open>isAborting\<close>.
\<close>

theorem abort_aborts_once:
  assumes fresh: "xhr \<notin> set (aborting_once st)" and called: "0 < n"
  shows
   "count_list (trace ((abort ^^ n) (snd (ajaxPromise st xhr data)))) (XhrAbort xhr) =
      count_list (trace st) (XhrAbort xhr) + 1 \<and>
    \<not> isUploading ((abort ^^ n) (snd (ajaxPromise st xhr data))) \<and>
    added ((abort ^^ n) (snd (ajaxPromise st xhr data)))
          (abort ((abort ^^ n) (snd (ajaxPromise st xhr data)))) =
      [Set_isUploading False, Trigger ''isAborting'' []]"
proof -
  let ?sent = "snd (ajaxPromise st xhr data)"
  from called obtain k where n: "n = Suc k"
    by (cases n) simp_all
  have listeners: "aborting_once ?sent = aborting_once st @ [xhr]"
    by (simp add: ajaxPromise_def Let_def emit_def)
  have before: "count_list (trace ?sent) (XhrAbort xhr) = count_list (trace st) (XhrAbort xhr)"
    by (simp add: ajaxPromise_def Let_def emit_def)
  have one: "count_list (aborting_once ?sent) xhr = 1"
    using fresh by (simp add: listeners)
  note after = funpow_abort [of k ?sent xhr]
  have count: "count_list (trace ((abort ^^ n) ?sent)) (XhrAbort xhr) =
      count_list (trace st) (XhrAbort xhr) + 1"
    using after before one unfolding n by simp
  have flag: "\<not> isUploading ((abort ^^ n) ?sent)"
    using after unfolding n by blast
  have consumed: "aborting_once ((abort ^^ n) ?sent) = []"
    using after unfolding n by blast
  have again: "added ((abort ^^ n) ?sent) (abort ((abort ^^ n) ?sent)) =
      [Set_isUploading False, Trigger ''isAborting'' []]"
    by (rule added_append) (simp add: abort_eq consumed)
  from count flag again show ?thesis
    by blast
qed

theorem abort_aborts_once_witness:
  "(0::nat) \<notin> set (aborting_once new_uploader) \<and> (0::nat) < 2 \<and>
   count_list (trace ((abort ^^ 2) (snd (ajaxPromise new_uploader 0 (ValueBody JNull)))))
     (XhrAbort 0) = 1 \<and>
   \<not> isUploading ((abort ^^ 2) (snd (ajaxPromise new_uploader 0 (ValueBody JNull))))"
proof -
  have h1: "(0::nat) \<notin> set (aborting_once new_uploader)"
    by (simp add: new_uploader_def)
  have h2: "(0::nat) < 2"
    by simp
  from abort_aborts_once [OF h1 h2, of "ValueBody JNull"] h1 show ?thesis
    by (simp add: new_uploader_def)
qed

text \<open>
  C10. If \<open>ajaxSettings.headers\<close> is undefined, \<open>ajax\<close> throws a \<open>TypeError\<close> and has sent
  nothing, and so does \<open>upload\<close>, whatever the transport would answer. If
  \<open>signingAjaxSettings.headers\<close> is undefined, \<open>sign\<close> throws a \<open>TypeError\<close> and has sent
  nothing, and so does the signing uploader's \<open>upload\<close>: no promise is returned.
\<close>

theorem missing_headers_throw:
  "(ajaxSettings_headers c = None \<longrightarrow>
      ajax c st target data m = Inl (TypeError, state_of (ajax c st target data m)) \<and>
      filter is_XhrSend (added st (state_of (ajax c st target data m))) = [] \<and>
      upload_run c st files extra answer = Inl (TypeError, state_of (upload c st files extra)) \<and>
      filter is_XhrSend (added st (state_of (upload c st files extra))) = []) \<and>
   (signingAjaxSettings_headers c = None \<longrightarrow>
      sign c st file extra = Inl (TypeError, state_of (sign c st file extra)) \<and>
      filter is_XhrSend (added st (state_of (sign c st file extra))) = [] \<and>
      signing_upload c ts st file extra sign_answer upload_answer =
        Inl (TypeError, state_of (sign c st file extra)))"
proof (intro conjI impI)
  assume none: "ajaxSettings_headers c = None"
  have a: "ajax c s target' data' m' =
      Inl (TypeError, s\<lparr>xhr_count := Suc (xhr_count s),
        trace := trace s @ [XhrOpen (xhr_count s)
          (case m' of None \<Rightarrow> upload_method c | Some v \<Rightarrow> v) target']\<rparr>)"
    for s target' data' m'
    by (simp add: ajax_def none Let_def new_XMLHttpRequest_def emit_def)
  show "ajax c st target data m = Inl (TypeError, state_of (ajax c st target data m))"
    by (simp add: a state_of_def)
  show "filter is_XhrSend (added st (state_of (ajax c st target data m))) = []"
    by (simp add: a state_of_def added_def)
  have u: "upload c st files extra =
      (case createFormData c files (default_extra extra) of
         Inl thrown \<Rightarrow> Inl (TypeError, st)
       | Inr formData \<Rightarrow>
           Inl (TypeError, st\<lparr>isUploading := True, xhr_count := Suc (xhr_count st),
             trace := trace st @ [Set_isUploading True,
               XhrOpen (xhr_count st) (upload_method c) (url c)]\<rparr>))"
  proof (cases "createFormData c files (default_extra extra)")
    case (Inl thrown)
    then show ?thesis
      by (cases thrown) (simp add: upload_def Let_def)
  next
    case (Inr formData)
    then show ?thesis
      by (simp add: upload_def Let_def a set_isUploading_def emit_def)
  qed
  show "upload_run c st files extra answer = Inl (TypeError, state_of (upload c st files extra))"
    by (cases "createFormData c files (default_extra extra)")
       (simp_all add: upload_run_def u state_of_def)
  show "filter is_XhrSend (added st (state_of (upload c st files extra))) = []"
    by (cases "createFormData c files (default_extra extra)")
       (simp_all add: u state_of_def added_def)
next
  assume none: "signingAjaxSettings_headers c = None"
  have s: "sign c st file extra =
      (if isObject (default_extra extra)
       then Inl (TypeError, st\<lparr>xhr_count := Suc (xhr_count st),
         trace := trace st @ [XhrOpen (xhr_count st) (signingMethod c) (signingUrl c),
           XhrSetRequestHeader (xhr_count st) ''Content-Type'' (JStr ''application/json'')]\<rparr>)
       else Inl (TypeError, st))"
    by (simp add: sign_def none Let_def new_XMLHttpRequest_def emit_def)
  show threw: "sign c st file extra = Inl (TypeError, state_of (sign c st file extra))"
    by (simp add: s state_of_def)
  show "filter is_XhrSend (added st (state_of (sign c st file extra))) = []"
    by (simp add: s state_of_def added_def)
  show "signing_upload c ts st file extra sign_answer upload_answer =
      Inl (TypeError, state_of (sign c st file extra))"
    unfolding signing_upload_def sign_default_extra
    by (subst threw) simp
qed

theorem missing_headers_throw_witness:
  "ajaxSettings_headers (example_config\<lparr>ajaxSettings_headers := None,
       signingAjaxSettings_headers := None\<rparr>) = None \<and>
   signingAjaxSettings_headers (example_config\<lparr>ajaxSettings_headers := None,
       signingAjaxSettings_headers := None\<rparr>) = None \<and>
   returned (upload_run (example_config\<lparr>ajaxSettings_headers := None,
       signingAjaxSettings_headers := None\<rparr>) new_uploader (OneFile example_file) JUndefined
       (Some (XhrLoad 200 JNull))) = None \<and>
   returned (signing_upload (example_config\<lparr>ajaxSettings_headers := None,
       signingAjaxSettings_headers := None\<rparr>) ToString new_uploader example_file JUndefined
       (Some (XhrLoad 200 JNull)) None) = None"
  using missing_headers_throw [of "example_config\<lparr>ajaxSettings_headers := None,
       signingAjaxSettings_headers := None\<rparr>" new_uploader "JStr ''/upload''" "ValueBody JNull"
       None "OneFile example_file" JUndefined "Some (XhrLoad 200 JNull)" example_file
       ToString "Some (XhrLoad 200 JNull)" None]
  by (simp add: returned_def)

end
